theory Spec2Isabelle
  imports Main
begin

section \<open>Python values, dictionaries and \<open>str()\<close>\<close>

text \<open>
  The session user is the JSON object returned by the identity provider, a Python dict.
  Its values are modelled by the scalar JSON values an id can be. A dict is an
  association list; \<open>d.get(k)\<close> is \<open>None\<close> for a missing key and \<open>d[k]\<close> raises
  \<open>KeyError\<close>. The other two exceptions are the ones the handlers below can raise:
  \<open>OverflowError\<close> from the commit and \<open>AttributeError\<close> from the markdown renderer.
\<close>

datatype pyval = PNone | PBool bool | PInt int | PStr string

type_synonym pydict = "(string \<times> pyval) list"

datatype error = KeyError string | OverflowError | AttributeError

definition dict_get :: "pydict \<Rightarrow> string \<Rightarrow> pyval" where
  "dict_get d k = (case map_of d k of None \<Rightarrow> PNone | Some v \<Rightarrow> v)"

definition dict_item :: "pydict \<Rightarrow> string \<Rightarrow> error + pyval" where
  "dict_item d k = (case map_of d k of None \<Rightarrow> Inl (KeyError k) | Some v \<Rightarrow> Inr v)"

text \<open>Decimal rendering of Python's unbounded integers, as \<open>str(n)\<close> and \<open>f"{n}"\<close> do.\<close>

definition digit_char :: "nat \<Rightarrow> char" where
  "digit_char d = ''0123456789'' ! (d mod 10)"

fun str_nat :: "nat \<Rightarrow> string" where
  "str_nat n = (if n < 10 then [digit_char n] else str_nat (n div 10) @ [digit_char (n mod 10)])"

declare str_nat.simps [simp del]

definition str_int :: "int \<Rightarrow> string" where
  "str_int i = (if i < 0 then CHR ''-'' # str_nat (nat (- i)) else str_nat (nat i))"

fun py_str :: "pyval \<Rightarrow> string" where
  "py_str PNone = ''None''"
| "py_str (PBool b) = (if b then ''True'' else ''False'')"
| "py_str (PInt i) = str_int i"
| "py_str (PStr s) = s"

section \<open>The Bot model and the process state\<close>

text \<open>
  The columns of \<open>Bot\<close> that the authorization and upvote paths read or write.
  \<open>owner_id\<close> is whatever \<open>session["user"]["id"]\<close> was when the bot was added;
  \<open>description\<close> is a nullable text column and \<open>upvotes\<close> a nullable integer column.
\<close>

record bot =
  bot_id :: string
  description :: "string option"
  owner_id :: pyval
  owner_name :: string
  upvotes :: "int option"
  server_count :: "int option"
  certified :: bool

text \<open>
  Naive datetimes and timedeltas are counted in microseconds, the resolution of
  \<open>datetime.now()\<close>. A timedelta is normalised by Python into days, seconds in
  \<open>[0, 86400)\<close> and microseconds in \<open>[0, 10^6)\<close>; \<open>.seconds\<close> reads the middle
  component only.
\<close>

type_synonym datetime = int
type_synonym timedelta = int

definition timedelta_hours :: "int \<Rightarrow> timedelta" where
  "timedelta_hours h = h * 3600 * 1000000"

definition td_seconds :: "timedelta \<Rightarrow> int" where
  "td_seconds td = (td div 1000000) mod 86400"

definition COOLDOWN_HOURS :: int where
  "COOLDOWN_HOURS = 6"

text \<open>
  \<open>user_votes\<close> is the module-level dict \<open>{(user_id, bot_id): last_upvote_datetime}\<close>;
  \<open>bots\<close> is the table behind \<open>Bot.query\<close>, keyed by its primary key.
\<close>

record state =
  user_votes :: "(string \<times> string) \<rightharpoonup> datetime"
  bots :: "string \<rightharpoonup> bot"

text \<open>
  \<open>db.session.commit()\<close> after a change of \<open>bot.upvotes\<close> writes the row back. The column
  is \<open>db.Integer\<close>, in SQLite a signed 64-bit \<open>INTEGER\<close>: for a Python int outside
  \<open>[-2^63, 2^63)\<close> the driver raises \<open>OverflowError\<close> and the table stays as it was.
  Failures of the database that do not depend on the data (a locked file, a full disk)
  are not part of the model.
\<close>

definition sqlite_integer :: "int \<Rightarrow> bool" where
  "sqlite_integer n = (- 9223372036854775808 \<le> n \<and> n \<le> 9223372036854775807)"

definition db_commit :: "string \<Rightarrow> bot \<Rightarrow> (string \<rightharpoonup> bot) \<Rightarrow> error + (string \<rightharpoonup> bot)" where
  "db_commit bid b tbl =
     (case upvotes b of
        None \<Rightarrow> Inr (tbl(bid \<mapsto> b))
      | Some n \<Rightarrow> if sqlite_integer n then Inr (tbl(bid \<mapsto> b)) else Inl OverflowError)"

section \<open>Authorization\<close>

text \<open>
  \<open>SITE_ADMIN_ID\<close> is \<open>os.getenv("SITE_ADMIN_ID")\<close>: a string, or \<open>None\<close> when the
  variable is not set. It is the first parameter of the functions that read it.
  \<open>not user\<close> holds for \<open>None\<close> and for the empty dict; \<open>not bot\<close> holds for \<open>None\<close> only.
\<close>

definition is_admin :: "string option \<Rightarrow> pydict option \<Rightarrow> bool" where
  "is_admin SITE_ADMIN_ID user =
     (case user of
        None \<Rightarrow> False
      | Some u \<Rightarrow>
          if u = [] then False
          else Some (py_str (dict_get u ''id'')) = SITE_ADMIN_ID)"

definition is_bot_owner :: "bot option \<Rightarrow> pydict option \<Rightarrow> bool" where
  "is_bot_owner b user =
     (case user of
        None \<Rightarrow> False
      | Some u \<Rightarrow>
          if u = [] then False
          else (case b of
                  None \<Rightarrow> False
                | Some bt \<Rightarrow> py_str (owner_id bt) = py_str (dict_get u ''id'')))"

definition can_edit_bot :: "string option \<Rightarrow> bot option \<Rightarrow> pydict option \<Rightarrow> bool" where
  "can_edit_bot SITE_ADMIN_ID b user = (is_admin SITE_ADMIN_ID user \<or> is_bot_owner b user)"

definition can_delete_bot :: "string option \<Rightarrow> bot option \<Rightarrow> pydict option \<Rightarrow> bool" where
  "can_delete_bot SITE_ADMIN_ID b user = (is_admin SITE_ADMIN_ID user \<or> is_bot_owner b user)"

section \<open>Request handlers\<close>

text \<open>
  Both handlers render the remaining cooldown with the same three statements:
  \<open>hours, remainder = divmod(cooldown_left.seconds, 3600)\<close>,
  \<open>minutes = remainder // 60\<close> and \<open>f"{hours}h {minutes}m"\<close>.
\<close>

definition cooldown_hours :: "timedelta \<Rightarrow> int" where
  "cooldown_hours cooldown_left = td_seconds cooldown_left div 3600"

definition cooldown_minutes :: "timedelta \<Rightarrow> int" where
  "cooldown_minutes cooldown_left = (td_seconds cooldown_left mod 3600) div 60"

definition cooldown_msg_of :: "timedelta \<Rightarrow> string" where
  "cooldown_msg_of cooldown_left =
     str_int (cooldown_hours cooldown_left) @ ''h '' @
     str_int (cooldown_minutes cooldown_left) @ ''m''"

datatype json = JsonError string | JsonUpvotes int

type_synonym response = "json \<times> nat"

text \<open>
  \<open>upvote_bot\<close>, the handler of \<open>POST /upvote/<bot_id>\<close>. The session holds a user
  dict or has no \<open>"user"\<close> key (\<open>None\<close> here); \<open>bot_id\<close> is the string of the URL;
  \<open>now\<close> is the value of \<open>datetime.now()\<close>. The three early answers and the
  \<open>KeyError\<close> of \<open>session["user"]["id"]\<close> come before any write. An admitted vote
  sets \<open>bot.upvotes\<close>, then writes \<open>user_votes[key]\<close>, then commits: when the commit
  raises, the entry of \<open>user_votes\<close> is already written and the table is unchanged.
\<close>

definition upvotes_or_0 :: "bot \<Rightarrow> int" where
  "upvotes_or_0 b = (case upvotes b of None \<Rightarrow> 0 | Some v \<Rightarrow> if v = 0 then 0 else v)"

definition upvote_bot ::
  "pydict option \<Rightarrow> string \<Rightarrow> datetime \<Rightarrow> state \<Rightarrow> (error + response) \<times> state" where
  "upvote_bot session_user bid now st =
     (case session_user of
        None \<Rightarrow> (Inr (JsonError ''Login required'', 401), st)
      | Some user \<Rightarrow>
          (case bots st bid of
             None \<Rightarrow> (Inr (JsonError ''Bot not found'', 404), st)
           | Some b \<Rightarrow>
               (case dict_item user ''id'' of
                  Inl e \<Rightarrow> (Inl e, st)
                | Inr user_id \<Rightarrow>
                    (let key = (py_str user_id, py_str (PStr bid));
                         last_vote = user_votes st key;
                         n = upvotes_or_0 b + 1;
                         st' = st\<lparr>user_votes := (user_votes st)(key \<mapsto> now)\<rparr>;
                         admitted =
                           (case db_commit bid (b\<lparr>upvotes := Some n\<rparr>) (bots st) of
                              Inl e \<Rightarrow> (Inl e, st')
                            | Inr tbl \<Rightarrow> (Inr (JsonUpvotes n, 200), st'\<lparr>bots := tbl\<rparr>))
                     in case last_vote of
                          None \<Rightarrow> admitted
                        | Some lv \<Rightarrow>
                            if now - lv < timedelta_hours COOLDOWN_HOURS then
                              (let cooldown_left = lv + timedelta_hours COOLDOWN_HOURS - now
                               in (Inr (JsonError (''Cooldown: next vote in '' @
                                          cooldown_msg_of cooldown_left), 403), st))
                            else admitted))))"



definition vote_hint ::
  "pydict option \<Rightarrow> string \<Rightarrow> datetime \<Rightarrow> state \<Rightarrow> error + bool \<times> string option" where
  "vote_hint user bid now st =
     (case user of
        None \<Rightarrow> Inr (True, None)
      | Some u \<Rightarrow>
          if u = [] then Inr (True, None)
          else (case dict_item u ''id'' of
                  Inl e \<Rightarrow> Inl e
                | Inr user_id \<Rightarrow>
                    (let key = (py_str user_id, py_str (PStr bid));
                         last_vote = user_votes st key
                     in case last_vote of
                          None \<Rightarrow> Inr (True, None)
                        | Some lv \<Rightarrow>
                            if now - lv < timedelta_hours COOLDOWN_HOURS then
                              (let cooldown_left = lv + timedelta_hours COOLDOWN_HOURS - now
                               in Inr (False, Some (cooldown_msg_of cooldown_left)))
                            else Inr (True, None))))"


section \<open>Observations on results, and sample data\<close>

text \<open>
  The HTTP status of a handler's result (none when it raised), and the key under which
  both handlers read \<open>user_votes\<close>: \<open>(str(user_id), str(bot_id))\<close>.
\<close>

definition status :: "error + response \<Rightarrow> nat option" where
  "status r = (case r of Inl e \<Rightarrow> None | Inr (body, code) \<Rightarrow> Some code)"

definition vote_key :: "pyval \<Rightarrow> string \<Rightarrow> string \<times> string" where
  "vote_key user_id bid = (py_str user_id, py_str (PStr bid))"

text \<open>
  The scenario of the specification: bot \<open>B1\<close> owned by \<open>U2\<close>, voter \<open>U1\<close>,
  administrator \<open>A\<close>; \<open>voted_at t\<close> is the state after \<open>U1\<close> upvoted \<open>B1\<close> at \<open>t\<close>.
\<close>

definition bot_B1 :: bot where
  "bot_B1 = \<lparr>bot_id = ''B1'', description = Some ''A music bot'', owner_id = PStr ''U2'',
             owner_name = ''u2'', upvotes = Some 4, server_count = Some 0,
             certified = False\<rparr>"

definition user_U1 :: pydict where
  "user_U1 = [(''id'', PStr ''U1''), (''username'', PStr ''u1'')]"

definition user_A :: pydict where
  "user_A = [(''id'', PStr ''A''), (''username'', PStr ''root'')]"


definition voted_at :: "datetime \<Rightarrow> state" where
  "voted_at t = \<lparr>user_votes = [(''U1'', ''B1'') \<mapsto> t], bots = [''B1'' \<mapsto> bot_B1]\<rparr>"

text \<open>
  A bot whose count column is null, owned by the user with id \<open>"123"\<close>, and two session
  dicts for that user: one with the id as an integer, one with it as a string.
\<close>

definition bot_null :: bot where
  "bot_null = \<lparr>bot_id = ''B2'', description = None, owner_id = PStr ''123'',
               owner_name = ''u123'', upvotes = None, server_count = None,
               certified = False\<rparr>"

definition user_int :: pydict where
  "user_int = [(''id'', PInt 123), (''username'', PStr ''u123'')]"

definition user_str :: pydict where
  "user_str = [(''username'', PStr ''u123''), (''id'', PStr ''123'')]"

definition null_state :: state where
  "null_state = \<lparr>user_votes = Map.empty, bots = [''B2'' \<mapsto> bot_null]\<rparr>"



section \<open>Basic facts\<close>

lemma window_us: "timedelta_hours COOLDOWN_HOURS = 21600000000"
  by (simp add: timedelta_hours_def COOLDOWN_HOURS_def)

lemma user_U1_id: "dict_item user_U1 ''id'' = Inr (PStr ''U1'')"
  by (simp add: dict_item_def user_U1_def)

lemma user_A_id: "dict_item user_A ''id'' = Inr (PStr ''A'')"
  by (simp add: dict_item_def user_A_def)

lemma user_int_id: "dict_item user_int ''id'' = Inr (PInt 123)"
  by (simp add: dict_item_def user_int_def)

lemma user_str_id: "dict_item user_str ''id'' = Inr (PStr ''123'')"
  by (simp add: dict_item_def user_str_def)

lemma dict_item_get: "dict_item u k = Inr v \<Longrightarrow> dict_get u k = v \<and> u \<noteq> []"
  by (auto simp: dict_item_def dict_get_def split: option.splits)

lemma str_int_123: "str_int 123 = ''123''"
  by code_simp


section \<open>Authorization on an absent bot\<close>

text \<open>
  C1, as stated: \<open>can_edit_bot\<close> and \<open>can_delete_bot\<close> are false on an absent bot for every
  actor, the administrator included. The administrator is a counterexample: \<open>is_admin\<close>
  never looks at the bot, and the disjunction is already true before \<open>is_bot_owner\<close> runs.
\<close>

theorem can_edit_absent_bot_counterexample:
  "can_edit_bot (Some ''A'') None (Some [(''id'', PStr ''A'')]) \<and>
   can_delete_bot (Some ''A'') None (Some [(''id'', PStr ''A'')])"
  by (simp add: can_edit_bot_def can_delete_bot_def is_admin_def dict_get_def)

text \<open>
  C1, amended: on an absent bot, \<open>can_edit_bot\<close> and \<open>can_delete_bot\<close> return exactly
  \<open>is_admin\<close> of the actor: false for every actor who is not the administrator (an absent
  actor included), true for the administrator.
\<close>

theorem can_edit_absent_bot:
  "can_edit_bot SITE_ADMIN_ID None user = is_admin SITE_ADMIN_ID user \<and>
   can_delete_bot SITE_ADMIN_ID None user = is_admin SITE_ADMIN_ID user"
  by (simp add: can_edit_bot_def can_delete_bot_def is_bot_owner_def split: option.splits)

theorem can_edit_absent_bot_witness:
  "can_edit_bot (Some ''A'') None (Some user_U1) = False \<and>
   can_delete_bot (Some ''A'') None None = False"
  using can_edit_absent_bot [of "Some ''A''" "Some user_U1"]
        can_edit_absent_bot [of "Some ''A''" None]
  by (simp add: is_admin_def dict_get_def user_U1_def)

section \<open>The outcomes of an upvote\<close>


lemma db_commit_fits:
  "sqlite_integer n \<Longrightarrow>
   db_commit bid (b\<lparr>upvotes := Some n\<rparr>) tbl = Inr (tbl(bid \<mapsto> b\<lparr>upvotes := Some n\<rparr>))"
  by (simp add: db_commit_def)

lemma db_commit_overflow:
  "\<not> sqlite_integer n \<Longrightarrow> db_commit bid (b\<lparr>upvotes := Some n\<rparr>) tbl = Inl OverflowError"
  by (simp add: db_commit_def)


lemma upvote_no_bot:
  "bots st bid = None \<Longrightarrow>
   upvote_bot (Some user) bid now st = (Inr (JsonError ''Bot not found'', 404), st)"
  by (simp add: upvote_bot_def)

lemma upvote_no_id:
  "bots st bid = Some b \<Longrightarrow> dict_item user ''id'' = Inl e \<Longrightarrow>
   upvote_bot (Some user) bid now st = (Inl e, st)"
  by (simp add: upvote_bot_def)

lemma upvote_rejected:
  assumes "bots st bid = Some b" and "dict_item user ''id'' = Inr uid"
      and "user_votes st (vote_key uid bid) = Some t"
      and "now - t < timedelta_hours COOLDOWN_HOURS"
  shows "upvote_bot (Some user) bid now st =
           (Inr (JsonError (''Cooldown: next vote in '' @
                   cooldown_msg_of (t + timedelta_hours COOLDOWN_HOURS - now)), 403), st)"
  using assms by (simp add: upvote_bot_def vote_key_def Let_def)

lemma upvote_overflow:
  assumes "bots st bid = Some b" and "dict_item user ''id'' = Inr uid"
      and "case user_votes st (vote_key uid bid) of
             None \<Rightarrow> True
           | Some t \<Rightarrow> now - t \<ge> timedelta_hours COOLDOWN_HOURS"
      and "\<not> sqlite_integer (upvotes_or_0 b + 1)"
  shows "upvote_bot (Some user) bid now st =
           (Inl OverflowError, st\<lparr>user_votes := (user_votes st)(vote_key uid bid \<mapsto> now)\<rparr>)"
  using assms
  by (simp add: upvote_bot_def vote_key_def Let_def db_commit_overflow
        split: option.split option.split_asm)

lemma upvote_committed:
  assumes "bots st bid = Some b" and "dict_item user ''id'' = Inr uid"
      and "case user_votes st (vote_key uid bid) of
             None \<Rightarrow> True
           | Some t \<Rightarrow> now - t \<ge> timedelta_hours COOLDOWN_HOURS"
      and "sqlite_integer (upvotes_or_0 b + 1)"
  shows "upvote_bot (Some user) bid now st =
           (Inr (JsonUpvotes (upvotes_or_0 b + 1), 200),
            st\<lparr>user_votes := (user_votes st)(vote_key uid bid \<mapsto> now),
               bots := (bots st)(bid \<mapsto> b\<lparr>upvotes := Some (upvotes_or_0 b + 1)\<rparr>)\<rparr>)"
  using assms
  by (simp add: upvote_bot_def vote_key_def Let_def db_commit_fits
        split: option.split option.split_asm)

text \<open>
  With a user who has an id and a bot that exists, the three ways that are left are told
  apart by the entry of the key and by the size of the new count.
\<close>

lemma upvote_status_403:
  assumes "bots st bid = Some b" and "dict_item user ''id'' = Inr uid"
  shows "status (fst (upvote_bot (Some user) bid now st)) = Some 403 \<longleftrightarrow>
         \<not> (case user_votes st (vote_key uid bid) of
               None \<Rightarrow> True
             | Some t \<Rightarrow> now - t \<ge> timedelta_hours COOLDOWN_HOURS)"
proof (cases "case user_votes st (vote_key uid bid) of
               None \<Rightarrow> True
             | Some t \<Rightarrow> now - t \<ge> timedelta_hours COOLDOWN_HOURS")
  case True
  show ?thesis
  proof (cases "sqlite_integer (upvotes_or_0 b + 1)")
    case fits: True
    from upvote_committed [OF assms True fits] True show ?thesis by (simp add: status_def)
  next
    case over: False
    from upvote_overflow [OF assms True over] True show ?thesis by (simp add: status_def)
  qed
next
  case False
  then obtain t where t: "user_votes st (vote_key uid bid) = Some t"
    and lt: "now - t < timedelta_hours COOLDOWN_HOURS"
    by (auto split: option.split_asm)
  from upvote_rejected [OF assms t lt] False show ?thesis by (simp add: status_def)
qed

lemma upvote_status_200:
  assumes "bots st bid = Some b" and "dict_item user ''id'' = Inr uid"
  shows "status (fst (upvote_bot (Some user) bid now st)) = Some 200 \<longleftrightarrow>
         (case user_votes st (vote_key uid bid) of
            None \<Rightarrow> True
          | Some t \<Rightarrow> now - t \<ge> timedelta_hours COOLDOWN_HOURS) \<and>
         sqlite_integer (upvotes_or_0 b + 1)"
proof (cases "case user_votes st (vote_key uid bid) of
               None \<Rightarrow> True
             | Some t \<Rightarrow> now - t \<ge> timedelta_hours COOLDOWN_HOURS")
  case True
  show ?thesis
  proof (cases "sqlite_integer (upvotes_or_0 b + 1)")
    case fits: True
    from upvote_committed [OF assms True fits] True fits show ?thesis
      by (simp add: status_def)
  next
    case over: False
    from upvote_overflow [OF assms True over] True over show ?thesis
      by (simp add: status_def)
  qed
next
  case False
  from upvote_status_403 [OF assms, of now] False
  have "status (fst (upvote_bot (Some user) bid now st)) = Some 403" by simp
  with False show ?thesis by simp
qed





lemma null_state_B2: "bots null_state ''B2'' = Some bot_null"
  by (simp add: null_state_def)

lemma bot_null_fits: "sqlite_integer (upvotes_or_0 bot_null + 1)"
  by (simp add: sqlite_integer_def upvotes_or_0_def bot_null_def)

lemma null_state_no_vote:
  "case user_votes null_state (vote_key (PInt 123) ''B2'') of
     None \<Rightarrow> True
   | Some t \<Rightarrow> 2000 - t \<ge> timedelta_hours COOLDOWN_HOURS"
  by (simp add: null_state_def)









section \<open>The cooldown decision\<close>




section \<open>The remaining time and its rendering\<close>

text \<open>
  A timedelta of less than a day has no days component, so \<open>.seconds\<close> is the whole
  number of seconds in it.
\<close>

lemma td_seconds_in_day:
  assumes "0 \<le> td" and "td < 86400000000"
  shows "td_seconds td = td div 1000000"
proof -
  have "0 \<le> td div 1000000" using assms by simp
  moreover have "td div 1000000 < 86400" using assms by simp
  ultimately show ?thesis by (simp add: td_seconds_def)
qed

lemma remaining_in_window:
  assumes "t \<le> now" and "now - t < timedelta_hours COOLDOWN_HOURS"
  shows "td_seconds (t + timedelta_hours COOLDOWN_HOURS - now) =
         (t + timedelta_hours COOLDOWN_HOURS - now) div 1000000"
  using assms by (intro td_seconds_in_day) (simp_all add: window_us)

text \<open>
  C3: when a vote falls inside the window of the recorded one
  (\<open>entry <= now < entry + window\<close>), \<open>upvote_bot\<close> rejects it with 403 and changes
  nothing; the remaining time is \<open>entry + window - now\<close>, and both handlers render it as
  \<open>hours = floor(remaining_seconds / 3600)\<close> and
  \<open>minutes = floor((remaining_seconds mod 3600) / 60)\<close>, the seconds dropped,
  in the form \<open>"{hours}h {minutes}m"\<close>. With one minute left the text is \<open>0h 1m\<close>.
\<close>

theorem rejected_remaining_rendered:
  assumes "dict_item user ''id'' = Inr uid" and "bots st bid = Some b"
      and "user_votes st (vote_key uid bid) = Some t"
      and "t \<le> now" and "now - t < timedelta_hours COOLDOWN_HOURS"
  shows "(let remaining = t + timedelta_hours COOLDOWN_HOURS - now;
              remaining_seconds = remaining div 1000000;
              hours = remaining_seconds div 3600;
              minutes = (remaining_seconds mod 3600) div 60;
              msg = str_int hours @ ''h '' @ str_int minutes @ ''m''
          in upvote_bot (Some user) bid now st =
               (Inr (JsonError (''Cooldown: next vote in '' @ msg), 403), st) \<and>
             vote_hint (Some user) bid now st = Inr (False, Some msg))"
proof -
  from assms(1) have ne: "user \<noteq> []" by (auto simp: dict_item_def)
  show ?thesis
    using assms ne remaining_in_window [OF assms(4,5)]
    by (simp add: upvote_bot_def vote_hint_def vote_key_def Let_def cooldown_msg_of_def
          cooldown_hours_def cooldown_minutes_def)
qed

theorem rejected_remaining_rendered_witness:
  "upvote_bot (Some user_U1) ''B1'' 21540001000 (voted_at 1000) =
     (Inr (JsonError ''Cooldown: next vote in 0h 1m'', 403), voted_at 1000) \<and>
   vote_hint (Some user_U1) ''B1'' 21540001000 (voted_at 1000) = Inr (False, Some ''0h 1m'')"
proof -
  have b: "bots (voted_at 1000) ''B1'' = Some bot_B1" by (simp add: voted_at_def)
  have v: "user_votes (voted_at 1000) (vote_key (PStr ''U1'') ''B1'') = Some 1000"
    by (simp add: voted_at_def vote_key_def)
  have le: "(1000::int) \<le> 21540001000" by simp
  have lt: "(21540001000::int) - 1000 < timedelta_hours COOLDOWN_HOURS" by (simp add: window_us)
  have s0: "str_int 0 = ''0''" by code_simp
  have s1: "str_int 1 = ''1''" by code_simp
  show ?thesis
    using rejected_remaining_rendered [OF user_U1_id b v le lt]
    by (simp add: window_us Let_def s0 s1)
qed

text \<open>
  Outside the window the rendering is a different one: when the wall clock has been set
  back so far that a day or more remains, \<open>.seconds\<close> leaves the days out. Here the
  clock is 20 hours behind the recorded vote, 26 hours remain, and the text is \<open>2h 0m\<close>.
\<close>

lemma seconds_drops_days:
  "cooldown_msg_of (100 + timedelta_hours COOLDOWN_HOURS - (100 - timedelta_hours 20)) = ''2h 0m''"
  by code_simp

section \<open>What the handlers write\<close>







section \<open>The administrator and the two policies\<close>

text \<open>
  C6: an actor whose id, as a string, is the configured \<open>SITE_ADMIN_ID\<close> may edit every
  bot, owned or not (and absent or not: \<open>b\<close> ranges over \<open>bot option\<close>).
\<close>

theorem admin_can_edit:
  assumes "dict_item user ''id'' = Inr uid" and "SITE_ADMIN_ID = Some (py_str uid)"
  shows "can_edit_bot SITE_ADMIN_ID b (Some user)"
  using assms dict_item_get [OF assms(1)]
  by (simp add: can_edit_bot_def is_admin_def)

theorem admin_can_edit_witness:
  "can_edit_bot (Some ''A'') (Some bot_B1) (Some user_A) \<and>
   can_edit_bot (Some ''A'') None (Some user_A) \<and>
   \<not> is_bot_owner (Some bot_B1) (Some user_A) \<and>
   \<not> can_edit_bot (Some ''A'') (Some bot_B1) (Some user_U1)"
proof -
  have a: "Some ''A'' = Some (py_str (PStr ''A''))" by simp
  have n: "\<not> is_bot_owner (Some bot_B1) (Some user_A)"
    by (simp add: is_bot_owner_def user_A_def bot_B1_def dict_get_def)
  have u: "\<not> can_edit_bot (Some ''A'') (Some bot_B1) (Some user_U1)"
    by (simp add: can_edit_bot_def is_admin_def is_bot_owner_def user_U1_def bot_B1_def
          dict_get_def)
  show ?thesis
    using n u admin_can_edit [OF user_A_id a, of "Some bot_B1"]
      admin_can_edit [OF user_A_id a, of None]
    by simp
qed

text \<open>
  C7: \<open>can_edit_bot\<close> and \<open>can_delete_bot\<close> agree on every bot (absent or not) and every
  user (absent or not).
\<close>

theorem can_edit_eq_can_delete:
  "can_edit_bot SITE_ADMIN_ID b user = can_delete_bot SITE_ADMIN_ID b user"
  by (simp add: can_edit_bot_def can_delete_bot_def)

theorem can_edit_eq_can_delete_witness:
  "can_edit_bot (Some ''A'') None None = can_delete_bot (Some ''A'') None None \<and>
   can_edit_bot (Some ''A'') (Some bot_B1) (Some user_U1) =
     can_delete_bot (Some ''A'') (Some bot_B1) (Some user_U1)"
  using can_edit_eq_can_delete [of "Some ''A''" None None]
        can_edit_eq_can_delete [of "Some ''A''" "Some bot_B1" "Some user_U1"]
  by simp

section \<open>Ids are compared as strings\<close>

lemma upvote_by_key:
  assumes "dict_item user ''id'' = Inr uid" and "dict_item user' ''id'' = Inr uid'"
      and "py_str uid = py_str uid'"
  shows "upvote_bot (Some user) bid now st = upvote_bot (Some user') bid now st"
  using assms by (simp add: upvote_bot_def Let_def split: option.split)

lemma vote_hint_by_key:
  assumes "dict_item user ''id'' = Inr uid" and "dict_item user' ''id'' = Inr uid'"
      and "py_str uid = py_str uid'"
  shows "vote_hint (Some user) bid now st = vote_hint (Some user') bid now st"
  using assms dict_item_get [OF assms(1)] dict_item_get [OF assms(2)]
  by (simp add: vote_hint_def Let_def split: option.split)

text \<open>
  C9: for a session user whose dict has an id, \<open>is_bot_owner\<close> compares
  \<open>str(bot.owner_id)\<close> with \<open>str(id)\<close>, \<open>is_admin\<close> compares \<open>str(id)\<close> with
  \<open>SITE_ADMIN_ID\<close>, and the cooldown key is \<open>(str(id), str(bot_id))\<close>: two users
  whose ids have the same string form have the same key, get the same answer and the
  same new state from \<open>upvote_bot\<close> and the same hint from \<open>bot_detail\<close>, and an
  admitted vote is recorded under the string form. The integer 123 and the string
  \<open>"123"\<close> are such a pair.
\<close>

theorem ids_compared_as_strings:
  assumes "dict_item user ''id'' = Inr uid"
  shows "is_bot_owner (Some b) (Some user) = (py_str (owner_id b) = py_str uid) \<and>
         is_admin SITE_ADMIN_ID (Some user) = (SITE_ADMIN_ID = Some (py_str uid)) \<and>
         (dict_item user' ''id'' = Inr uid' \<and> py_str uid = py_str uid' \<longrightarrow>
            vote_key uid bid = vote_key uid' bid \<and>
            upvote_bot (Some user) bid now st = upvote_bot (Some user') bid now st \<and>
            vote_hint (Some user) bid now st = vote_hint (Some user') bid now st) \<and>
         (status (fst (upvote_bot (Some user) bid now st)) = Some 200 \<longrightarrow>
            user_votes (snd (upvote_bot (Some user) bid now st)) (py_str uid, bid) = Some now)"
proof -
  have 1: "is_bot_owner (Some b) (Some user) = (py_str (owner_id b) = py_str uid)"
    using dict_item_get [OF assms] by (simp add: is_bot_owner_def)
  have 2: "is_admin SITE_ADMIN_ID (Some user) = (SITE_ADMIN_ID = Some (py_str uid))"
    using dict_item_get [OF assms] by (auto simp: is_admin_def)
  have 3: "dict_item user' ''id'' = Inr uid' \<and> py_str uid = py_str uid' \<longrightarrow>
            vote_key uid bid = vote_key uid' bid \<and>
            upvote_bot (Some user) bid now st = upvote_bot (Some user') bid now st \<and>
            vote_hint (Some user) bid now st = vote_hint (Some user') bid now st"
    using upvote_by_key [OF assms] vote_hint_by_key [OF assms]
    by (simp add: vote_key_def)
  have 4: "status (fst (upvote_bot (Some user) bid now st)) = Some 200 \<longrightarrow>
            user_votes (snd (upvote_bot (Some user) bid now st)) (py_str uid, bid) = Some now"
  proof (cases "bots st bid")
    case None
    then show ?thesis by (simp add: upvote_no_bot status_def)
  next
    case (Some b')
    show ?thesis
    proof
      assume ok: "status (fst (upvote_bot (Some user) bid now st)) = Some 200"
      from upvote_status_200 [OF Some assms, of now] ok
      have p: "case user_votes st (vote_key uid bid) of
                 None \<Rightarrow> True
               | Some t \<Rightarrow> now - t \<ge> timedelta_hours COOLDOWN_HOURS"
        and f: "sqlite_integer (upvotes_or_0 b' + 1)" by simp_all
      from upvote_committed [OF Some assms p f]
      show "user_votes (snd (upvote_bot (Some user) bid now st)) (py_str uid, bid) = Some now"
        by (simp add: vote_key_def)
    qed
  qed
  show ?thesis using 1 2 3 4 by blast
qed

theorem ids_compared_as_strings_witness:
  "is_bot_owner (Some bot_null) (Some user_int) \<and>
   is_admin (Some ''123'') (Some user_int) \<and>
   upvote_bot (Some user_int) ''B2'' 2000 null_state =
     upvote_bot (Some user_str) ''B2'' 2000 null_state \<and>
   user_votes (snd (upvote_bot (Some user_int) ''B2'' 2000 null_state)) (''123'', ''B2'') =
     Some 2000 \<and>
   status (fst (upvote_bot (Some user_str) ''B2'' 3000
     (snd (upvote_bot (Some user_int) ''B2'' 2000 null_state)))) = Some 403"
proof -
  have eq: "py_str (PInt 123) = py_str (PStr ''123'')" by (simp add: str_int_123)
  have ow: "py_str (owner_id bot_null) = py_str (PInt 123)"
    by (simp add: bot_null_def str_int_123)
  have first: "upvote_bot (Some user_int) ''B2'' 2000 null_state =
      (Inr (JsonUpvotes 1, 200),
       \<lparr>user_votes = [(''123'', ''B2'') \<mapsto> 2000],
        bots = [''B2'' \<mapsto> bot_null\<lparr>upvotes := Some 1\<rparr>]\<rparr>)"
    using upvote_committed [OF null_state_B2 user_int_id null_state_no_vote bot_null_fits]
    by (simp add: vote_key_def str_int_123 null_state_def upvotes_or_0_def bot_null_def)
  have ok: "status (fst (upvote_bot (Some user_int) ''B2'' 2000 null_state)) = Some 200"
    by (simp add: first status_def)
  have rj: "status (fst (upvote_bot (Some user_str) ''B2'' 3000
     (snd (upvote_bot (Some user_int) ''B2'' 2000 null_state)))) = Some 403"
  proof -
    have b: "bots (snd (upvote_bot (Some user_int) ''B2'' 2000 null_state)) ''B2'' =
             Some (bot_null\<lparr>upvotes := Some 1\<rparr>)"
      by (simp add: first)
    have v: "user_votes (snd (upvote_bot (Some user_int) ''B2'' 2000 null_state))
               (vote_key (PStr ''123'') ''B2'') = Some 2000"
      by (simp add: first vote_key_def)
    have lt: "(3000::int) - 2000 < timedelta_hours COOLDOWN_HOURS" by (simp add: window_us)
    from upvote_rejected [OF b user_str_id v lt] show ?thesis by (simp add: status_def)
  qed
  note inst = ids_compared_as_strings [OF user_int_id, of bot_null "Some ''123''" user_str
        "PStr ''123''" "''B2''" 2000 null_state]
  from inst ow have o: "is_bot_owner (Some bot_null) (Some user_int)" by simp
  from inst have a: "is_admin (Some ''123'') (Some user_int)" by (simp add: str_int_123)
  from inst user_str_id eq
  have e: "upvote_bot (Some user_int) ''B2'' 2000 null_state =
           upvote_bot (Some user_str) ''B2'' 2000 null_state" by blast
  from inst ok
  have "user_votes (snd (upvote_bot (Some user_int) ''B2'' 2000 null_state))
          (py_str (PInt 123), ''B2'') = Some 2000" by blast
  then have w: "user_votes (snd (upvote_bot (Some user_int) ''B2'' 2000 null_state))
          (''123'', ''B2'') = Some 2000" by (simp add: str_int_123)
  show ?thesis using o a e w rj by blast
qed

section \<open>A null count\<close>

text \<open>
  C10: an admitted upvote on a bot whose \<open>upvotes\<close> column is null answers 200 with the
  count 1 and stores 1; it does not raise.
\<close>

theorem upvote_null_count:
  assumes "dict_item user ''id'' = Inr uid" and "bots st bid = Some b"
      and "upvotes b = None"
      and "case user_votes st (vote_key uid bid) of
             None \<Rightarrow> True
           | Some t \<Rightarrow> now - t \<ge> timedelta_hours COOLDOWN_HOURS"
  shows "fst (upvote_bot (Some user) bid now st) = Inr (JsonUpvotes 1, 200) \<and>
         bots (snd (upvote_bot (Some user) bid now st)) bid = Some (b\<lparr>upvotes := Some 1\<rparr>)"
proof -
  from assms(3) have one: "upvotes_or_0 b + 1 = 1" by (simp add: upvotes_or_0_def)
  then have fits: "sqlite_integer (upvotes_or_0 b + 1)" by (simp add: sqlite_integer_def)
  from upvote_committed [OF assms(2,1,4) fits] one show ?thesis by simp
qed

theorem upvote_null_count_witness:
  "fst (upvote_bot (Some user_int) ''B2'' 2000 null_state) = Inr (JsonUpvotes 1, 200) \<and>
   map_option upvotes (bots (snd (upvote_bot (Some user_int) ''B2'' 2000 null_state)) ''B2'') =
     Some (Some 1)"
proof -
  have b: "bots null_state ''B2'' = Some bot_null" by (simp add: null_state_def)
  have u: "upvotes bot_null = None" by (simp add: bot_null_def)
  have v: "case user_votes null_state (vote_key (PInt 123) ''B2'') of
             None \<Rightarrow> True
           | Some t \<Rightarrow> 2000 - t \<ge> timedelta_hours COOLDOWN_HOURS"
    by (simp add: null_state_def)
  show ?thesis
    using upvote_null_count [OF user_int_id b u v] by simp
qed

section \<open>Two votes in sequence\<close>

text \<open>
  When the handler runs twice, one call after the other, for a key without an entry and
  the second call is less than a window after the first, the first vote is admitted and
  the second is rejected. The handler takes no lock, and nothing here describes two
  calls whose statements interleave.
\<close>

lemma votes_in_sequence:
  assumes "dict_item user ''id'' = Inr uid" and "bots st bid = Some b"
      and "user_votes st (vote_key uid bid) = None"
      and "sqlite_integer (upvotes_or_0 b + 1)"
      and "t1 - t0 < timedelta_hours COOLDOWN_HOURS"
  shows "status (fst (upvote_bot (Some user) bid t0 st)) = Some 200 \<and>
         status (fst (upvote_bot (Some user) bid t1 (snd (upvote_bot (Some user) bid t0 st)))) =
           Some 403"
proof -
  from assms(3)
  have p: "case user_votes st (vote_key uid bid) of
             None \<Rightarrow> True
           | Some t \<Rightarrow> t0 - t \<ge> timedelta_hours COOLDOWN_HOURS" by simp
  note first = upvote_committed [OF assms(2,1) p assms(4)]
  have b: "bots (snd (upvote_bot (Some user) bid t0 st)) bid =
           Some (b\<lparr>upvotes := Some (upvotes_or_0 b + 1)\<rparr>)"
    by (simp add: first)
  have v: "user_votes (snd (upvote_bot (Some user) bid t0 st)) (vote_key uid bid) = Some t0"
    by (simp add: first)
  from upvote_rejected [OF b assms(1) v assms(5)] first show ?thesis
    by (simp add: status_def)
qed

end
